theory Spec2Isabelle
  imports Main "HOL-Library.Sublist"
begin

section \<open>Text, thrown values and the platform's string functions\<close>

text \<open>
  The server (class \<open>MarkdownPdfServer\<close>) works on JavaScript strings. Text is modelled as
  \<^typ>\<open>string\<close>, read as the UTF-8 bytes of well-formed Unicode text: every pattern the
  code matches (the fences, the placeholder marker, the base64 alphabet, \<open>.pdf\<close>) is
  ASCII, and an ASCII byte never occurs inside a multi-byte sequence, so matching on bytes
  and matching on code units find the same places. Under this reading
  \<open>Buffer.from(s)\<close> (UTF-8 encoding) is the identity, and \<open>buf.toString('utf-8')\<close> leaves
  well-formed bytes as they are and puts U+FFFD in the place of what is not UTF-8. (A
  JavaScript string with a lone surrogate has no such bytes and is not among the texts of the
  model.)

  A thrown value is either an \<open>Error\<close> object, of which the handler reads the message, or
  some other value, of which it takes \<open>String(error)\<close>.
\<close>

datatype js_error = Error (message: string) | Thrown (as_string: string)

subsection \<open>\<open>String.prototype.trim\<close>\<close>

text \<open>
  The ECMAScript white space and line terminator code points, each as its UTF-8 bytes:
  U+0009 to U+000D, U+0020, U+00A0, U+1680, U+2000 to U+200A, U+2028, U+2029, U+202F,
  U+205F, U+3000 and U+FEFF.
\<close>

definition white_space :: "string list" where
  "white_space =
    [[CHR 0x09], [CHR 0x0A], [CHR 0x0B], [CHR 0x0C], [CHR 0x0D], [CHR 0x20],
     [CHR 0xC2, CHR 0xA0], [CHR 0xE1, CHR 0x9A, CHR 0x80],
     [CHR 0xE2, CHR 0x80, CHR 0x80], [CHR 0xE2, CHR 0x80, CHR 0x81],
     [CHR 0xE2, CHR 0x80, CHR 0x82], [CHR 0xE2, CHR 0x80, CHR 0x83],
     [CHR 0xE2, CHR 0x80, CHR 0x84], [CHR 0xE2, CHR 0x80, CHR 0x85],
     [CHR 0xE2, CHR 0x80, CHR 0x86], [CHR 0xE2, CHR 0x80, CHR 0x87],
     [CHR 0xE2, CHR 0x80, CHR 0x88], [CHR 0xE2, CHR 0x80, CHR 0x89],
     [CHR 0xE2, CHR 0x80, CHR 0x8A], [CHR 0xE2, CHR 0x80, CHR 0xA8],
     [CHR 0xE2, CHR 0x80, CHR 0xA9], [CHR 0xE2, CHR 0x80, CHR 0xAF],
     [CHR 0xE2, CHR 0x81, CHR 0x9F], [CHR 0xE3, CHR 0x80, CHR 0x80],
     [CHR 0xEF, CHR 0xBB, CHR 0xBF]]"

function strip :: "string list \<Rightarrow> string \<Rightarrow> string" where
  "strip ws s =
     (case find (\<lambda>w. w \<noteq> [] \<and> prefix w s) ws of
        Some w \<Rightarrow> strip ws (drop (length w) s)
      | None \<Rightarrow> s)"
  by pat_completeness auto
termination
proof (relation "measure (\<lambda>(ws, s). length s)")
  show "wf (measure (\<lambda>(ws :: string list, s :: string). length s))"
    by simp
next
  fix ws :: "string list" and s w :: string
  assume "find (\<lambda>w. w \<noteq> [] \<and> prefix w s) ws = Some w"
  then have w: "w \<noteq> []" "prefix w s"
    by (auto simp: find_Some_iff)
  from w(2) have "length w \<le> length s"
    by (rule prefix_length_le)
  moreover from w(1) have "0 < length w"
    by simp
  ultimately have "length s - length w < length s"
    by arith
  then show "((ws, drop (length w) s), (ws, s)) \<in> measure (\<lambda>(ws, s). length s)"
    by simp
qed

definition trimStart :: "string \<Rightarrow> string" where
  "trimStart s = strip white_space s"

definition trimEnd :: "string \<Rightarrow> string" where
  "trimEnd s = rev (strip (map rev white_space) (rev s))"

definition trim :: "string \<Rightarrow> string" where
  "trim s = trimEnd (trimStart s)"

subsection \<open>\<open>String.prototype.toLowerCase\<close> and \<open>endsWith\<close>\<close>

text \<open>
  Lower-casing maps the ASCII capitals to their small letters. On other characters the
  model leaves the bytes alone: no lower-case mapping of Unicode yields one of the
  characters of \<open>.pdf\<close> from anything but \<open>.\<close>, \<open>P\<close>, \<open>D\<close>, \<open>F\<close> and their small forms, and
  the code uses \<open>toLowerCase\<close> only to test for that ending.
\<close>

definition lower_char :: "char \<Rightarrow> char" where
  "lower_char c =
     (if (65::nat) \<le> of_char c \<and> of_char c \<le> (90::nat) then char_of (of_char c + (32::nat)) else c)"

definition toLowerCase :: "string \<Rightarrow> string" where
  "toLowerCase s = map lower_char s"

definition endsWith :: "string \<Rightarrow> string \<Rightarrow> bool" where
  "endsWith s t = suffix t s"

subsection \<open>\<open>Buffer\<close>: base64\<close>

text \<open>
  \<open>buf.toString('base64')\<close> is the standard alphabet with \<open>=\<close> padding.
  \<open>Buffer.from(s, 'base64')\<close> is lenient and never throws. The server gives it only
  tokens of letters, digits, \<open>+\<close>, \<open>/\<close> and \<open>=\<close>; on these it decodes up to the first
  \<open>=\<close>, and a trailing group of two or three characters gives one or two bytes.
\<close>

text \<open>
  The alphabet: \<open>A\<close> to \<open>Z\<close> (codes 65 to 90) for 0 to 25, \<open>a\<close> to \<open>z\<close> (97 to 122) for 26 to
  51, \<open>0\<close> to \<open>9\<close> (48 to 57) for 52 to 61, then \<open>+\<close> and \<open>/\<close>.
\<close>

definition b64_char :: "nat \<Rightarrow> char" where
  "b64_char n =
     (if n < 26 then char_of (n + 65)
      else if n < 52 then char_of (n + 71)
      else if n < 62 then char_of (n - 4)
      else if n = 62 then CHR ''+''
      else CHR ''/'')"

definition unbase64 :: "char \<Rightarrow> nat" where
  "unbase64 c =
     (let k = (of_char c :: nat) in
      if 65 \<le> k \<and> k \<le> 90 then k - 65
      else if 97 \<le> k \<and> k \<le> 122 then k - 71
      else if 48 \<le> k \<and> k \<le> 57 then k + 4
      else if k = 43 then 62
      else if k = 47 then 63
      else 64)"

fun sextets :: "nat list \<Rightarrow> nat list" where
  "sextets (a # b # c # bs) =
     [a div 4, (a mod 4) * 16 + b div 16, (b mod 16) * 4 + c div 64, c mod 64] @ sextets bs"
| "sextets [a, b] = [a div 4, (a mod 4) * 16 + b div 16, (b mod 16) * 4]"
| "sextets [a] = [a div 4, (a mod 4) * 16]"
| "sextets [] = []"

fun octets :: "nat list \<Rightarrow> nat list" where
  "octets (w # x # y # z # ss) =
     [w * 4 + x div 16, (x mod 16) * 16 + y div 4, (y mod 4) * 64 + z] @ octets ss"
| "octets [w, x, y] = [w * 4 + x div 16, (x mod 16) * 16 + y div 4]"
| "octets [w, x] = [w * 4 + x div 16]"
| "octets [w] = []"
| "octets [] = []"

definition toString_base64 :: "string \<Rightarrow> string" where
  "toString_base64 buf =
     map b64_char (sextets (map of_char buf)) @
     replicate ((3 - length buf mod 3) mod 3) (CHR ''='')"

definition Buffer_from_base64 :: "string \<Rightarrow> string" where
  "Buffer_from_base64 s =
     map char_of
       (octets (map unbase64 (filter (\<lambda>c. unbase64 c < 64) (takeWhile (\<lambda>c. c \<noteq> CHR ''='') s))))"

definition Buffer_from :: "string \<Rightarrow> string" where
  "Buffer_from s = s"

subsection \<open>\<open>Buffer\<close>: UTF-8\<close>

text \<open>
  \<open>buf.toString('utf-8')\<close> decodes as the Encoding Standard says: a byte below \<open>0x80\<close>
  stands for itself; a lead byte \<open>0xC2\<close> to \<open>0xF4\<close> wants one, two or three continuation
  bytes, the first of them in a range that depends on the lead byte (no overlong forms, no
  surrogates, nothing above U+10FFFF); where the bytes do not go on like that, the part read
  so far becomes one U+FFFD and decoding goes on with the byte that did not fit. The result
  is given as UTF-8 again, in which U+FFFD is \<open>EF BF BD\<close>.
\<close>

definition replacement_character :: string where
  "replacement_character = [CHR 0xEF, CHR 0xBF, CHR 0xBD]"

definition continuation :: "nat \<Rightarrow> nat \<Rightarrow> string \<Rightarrow> bool" where
  "continuation lower upper bytes =
     (case bytes of [] \<Rightarrow> False | b # bs \<Rightarrow> lower \<le> of_char b \<and> of_char b \<le> upper)"

function toString_utf8 :: "string \<Rightarrow> string" where
  "toString_utf8 [] = []"
| "toString_utf8 (b # bs) =
     (let lead = (of_char b :: nat) in
      if lead < 0x80 then b # toString_utf8 bs
      else if 0xC2 \<le> lead \<and> lead \<le> 0xDF then
        (if continuation 0x80 0xBF bs then b # take 1 bs @ toString_utf8 (drop 1 bs)
         else replacement_character @ toString_utf8 bs)
      else if 0xE0 \<le> lead \<and> lead \<le> 0xEF then
        (if continuation (if lead = 0xE0 then 0xA0 else 0x80) (if lead = 0xED then 0x9F else 0xBF) bs
         then
           (if continuation 0x80 0xBF (drop 1 bs) then b # take 2 bs @ toString_utf8 (drop 2 bs)
            else replacement_character @ toString_utf8 (drop 1 bs))
         else replacement_character @ toString_utf8 bs)
      else if 0xF0 \<le> lead \<and> lead \<le> 0xF4 then
        (if continuation (if lead = 0xF0 then 0x90 else 0x80) (if lead = 0xF4 then 0x8F else 0xBF) bs
         then
           (if continuation 0x80 0xBF (drop 1 bs) then
              (if continuation 0x80 0xBF (drop 2 bs) then b # take 3 bs @ toString_utf8 (drop 3 bs)
               else replacement_character @ toString_utf8 (drop 2 bs))
            else replacement_character @ toString_utf8 (drop 1 bs))
         else replacement_character @ toString_utf8 bs)
      else replacement_character @ toString_utf8 bs)"
  by pat_completeness auto
termination
  by (relation "measure length") auto

text \<open>
  The expression \<open>Buffer.from(encodedCode, 'base64').toString('utf-8')\<close> of
  \<open>restoreMermaidDiagrams\<close>, as a computation that may throw.
\<close>

definition decode_base64_utf8 :: "string \<Rightarrow> js_error + string" where
  "decode_base64_utf8 encodedCode = Inr (toString_utf8 (Buffer_from_base64 encodedCode))"

section \<open>Global regular-expression replacement\<close>

text \<open>
  \<open>str.replace(regex, callback)\<close> with a global regex walks the text from left to
  right: where the regex matches, the callback's result for the capture group replaces
  the match and the walk goes on after the match; elsewhere the character is kept. A scan
  lists what the walk finds; the replacement then joins the kept characters and the
  callback's results. A callback that throws aborts the whole replacement.
\<close>

datatype piece = is_Keep: Keep char | is_Match: Match (capture: string)

definition captures :: "piece list \<Rightarrow> string list" where
  "captures ps = map capture (filter is_Match ps)"

fun replace_with :: "(string \<Rightarrow> string) \<Rightarrow> piece list \<Rightarrow> string" where
  "replace_with f [] = []"
| "replace_with f (Keep c # ps) = c # replace_with f ps"
| "replace_with f (Match g # ps) = f g @ replace_with f ps"

fun replace_try :: "(string \<Rightarrow> js_error + string) \<Rightarrow> piece list \<Rightarrow> js_error + string" where
  "replace_try f [] = Inr []"
| "replace_try f (Keep c # ps) =
     (case replace_try f ps of Inl e \<Rightarrow> Inl e | Inr t \<Rightarrow> Inr (c # t))"
| "replace_try f (Match g # ps) =
     (case f g of
        Inl e \<Rightarrow> Inl e
      | Inr s \<Rightarrow> (case replace_try f ps of Inl e \<Rightarrow> Inl e | Inr t \<Rightarrow> Inr (s @ t)))"

section \<open>The diagram protector\<close>

subsection \<open>\<open>processMermaidDiagrams\<close>\<close>

definition fence_open :: string where
  "fence_open = ''```mermaid'' @ [CHR 0x0A]"

definition fence_close :: string where
  "fence_close = ''```''"

definition placeholder_prefix :: string where
  "placeholder_prefix = ''MERMAID_DIAGRAM_PLACEHOLDER_''"

text \<open>
  The lazy group \<open>([\s\S]*?)\<close> followed by the closing fence: the shortest text up to the
  first closing fence. Returns the captured text and what follows the fence.
\<close>

fun lazy_until_fence :: "string \<Rightarrow> (string \<times> string) option" where
  "lazy_until_fence [] = None"
| "lazy_until_fence (c # cs) =
     (if prefix fence_close (c # cs) then Some ([], drop (length fence_close) (c # cs))
      else (case lazy_until_fence cs of
              None \<Rightarrow> None
            | Some (code, rest) \<Rightarrow> Some (c # code, rest)))"

lemma lazy_until_fence_length:
  "lazy_until_fence s = Some (code, rest) \<Longrightarrow> length rest < length s"
proof (induction s arbitrary: code)
  case Nil
  then show ?case by simp
next
  case (Cons c cs)
  show ?case
  proof (cases "prefix fence_close (c # cs)")
    case True
    with Cons.prems show ?thesis
      by (auto simp: fence_close_def)
  next
    case False
    with Cons.prems obtain code' where "lazy_until_fence cs = Some (code', rest)"
      by (auto split: option.splits)
    then have "length rest < length cs"
      by (rule Cons.IH)
    then show ?thesis by simp
  qed
qed

text \<open>The matches of \<open>/```mermaid\n([\s\S]*?)```/g\<close> in a text.\<close>

function mermaidRegex :: "string \<Rightarrow> piece list" where
  "mermaidRegex [] = []"
| "mermaidRegex (c # cs) =
     (if prefix fence_open (c # cs) then
        (case lazy_until_fence (drop (length fence_open) (c # cs)) of
           Some (code, rest) \<Rightarrow> Match code # mermaidRegex rest
         | None \<Rightarrow> Keep c # mermaidRegex cs)
      else Keep c # mermaidRegex cs)"
  by pat_completeness auto
termination
proof (relation "measure length")
  show "wf (measure (length :: string \<Rightarrow> nat))"
    by simp
next
  fix c :: char and cs code rest :: string and x :: "string \<times> string"
  assume "lazy_until_fence (drop (length fence_open) (c # cs)) = Some x" "(code, rest) = x"
  then have "length rest < length (drop (length fence_open) (c # cs))"
    using lazy_until_fence_length by metis
  then show "(rest, c # cs) \<in> measure length"
    by simp
qed simp_all

definition mermaid_placeholder :: "string \<Rightarrow> string" where
  "mermaid_placeholder code = placeholder_prefix @ toString_base64 (Buffer_from (trim code))"

definition processMermaidDiagrams :: "string \<Rightarrow> string \<times> bool" where
  "processMermaidDiagrams markdownContent =
     (let found = mermaidRegex markdownContent
      in (replace_with mermaid_placeholder found, list_ex is_Match found))"


subsection \<open>\<open>restoreMermaidDiagrams\<close>\<close>

definition is_b64char :: "char \<Rightarrow> bool" where
  "is_b64char c \<longleftrightarrow> unbase64 c < 64 \<or> c = CHR ''=''"

text \<open>The matches of \<open>/MERMAID_DIAGRAM_PLACEHOLDER_([A-Za-z0-9+/=]+)/g\<close> in a text.\<close>

function placeholderRegex :: "string \<Rightarrow> piece list" where
  "placeholderRegex [] = []"
| "placeholderRegex (c # cs) =
     (if prefix placeholder_prefix (c # cs) \<and>
         takeWhile is_b64char (drop (length placeholder_prefix) (c # cs)) \<noteq> []
      then Match (takeWhile is_b64char (drop (length placeholder_prefix) (c # cs))) #
           placeholderRegex (dropWhile is_b64char (drop (length placeholder_prefix) (c # cs)))
      else Keep c # placeholderRegex cs)"
  by pat_completeness auto
termination
proof (relation "measure length")
  show "wf (measure (length :: string \<Rightarrow> nat))"
    by simp
next
  fix c :: char and cs :: string
  assume "prefix placeholder_prefix (c # cs) \<and>
    takeWhile is_b64char (drop (length placeholder_prefix) (c # cs)) \<noteq> []"
  have "length (dropWhile is_b64char (drop (length placeholder_prefix) (c # cs)))
      \<le> length (drop (length placeholder_prefix) (c # cs))"
    by (rule length_dropWhile_le)
  also have "\<dots> < length (c # cs)"
    by (simp add: placeholder_prefix_def)
  finally show "(dropWhile is_b64char (drop (length placeholder_prefix) (c # cs)), c # cs)
      \<in> measure length"
    by simp
qed simp_all

definition mermaid_container :: "string \<Rightarrow> string" where
  \<open>mermaid_container mermaidCode = ''<div class="mermaid">'' @ mermaidCode @ ''</div>''\<close>

definition mermaid_error_marker :: string where
  \<open>mermaid_error_marker = ''<div class="mermaid-error">Error processing diagram</div>''\<close>

text \<open>
  The callback of the replacement: the \<open>try\<close> block decodes and builds the container, the
  \<open>catch\<close> block returns the error marker. The decoder is a parameter, so that a decoder
  that throws can be put in; the server runs it with \<^term>\<open>decode_base64_utf8\<close>.
\<close>

definition restore_callback :: "(string \<Rightarrow> js_error + string) \<Rightarrow> string \<Rightarrow> js_error + string" where
  "restore_callback decode encodedCode =
     (case decode encodedCode of
        Inr mermaidCode \<Rightarrow> Inr (mermaid_container mermaidCode)
      | Inl error \<Rightarrow> Inr mermaid_error_marker)"

definition restoreMermaidDiagrams :: "(string \<Rightarrow> js_error + string) \<Rightarrow> string \<Rightarrow> js_error + string" where
  "restoreMermaidDiagrams decode htmlContent =
     replace_try (restore_callback decode) (placeholderRegex htmlContent)"

section \<open>The document composer\<close>

text \<open>
  The two template literals of \<open>convertToPdf\<close>, line by line. \<open>join_lines\<close> puts the
  line breaks of the source back between the lines.
\<close>

fun join_lines :: "string list \<Rightarrow> string" where
  "join_lines [] = []"
| "join_lines [l] = l"
| "join_lines (l # ls) = l @ CHR 0x0A # join_lines ls"

definition mermaid_script_text :: string where
  \<open>mermaid_script_text = join_lines
     [
       '''',
       ''      <script src="https://cdn.jsdelivr.net/npm/mermaid@10.6.0/dist/mermaid.min.js"></script>'',
       ''      <script>'',
       ''        // Initialize mermaid with specific configuration for PDF rendering'',
       ''        document.addEventListener('DOMContentLoaded', function() {'',
       ''          try {'',
       ''            // Initialize mermaid'',
       ''            mermaid.initialize({'',
       ''              startOnLoad: true,'',
       ''              theme: 'default','',
       ''              securityLevel: 'loose','',
       ''              flowchart: { '',
       ''                useMaxWidth: false, '',
       ''                htmlLabels: true '',
       ''              }'',
       ''            });'',
       ''            '',
       ''            // Let puppeteer know when mermaid is done rendering'',
       ''            window.mermaidRendered = false;'',
       ''            mermaid.run().then(() => {'',
       ''              window.mermaidRendered = true;'',
       ''              document.dispatchEvent(new CustomEvent('mermaid-rendered'));'',
       ''              console.log('Mermaid diagrams rendered successfully');'',
       ''            }).catch(err => {'',
       ''              console.error('Mermaid rendering error:', err);'',
       ''              window.mermaidRendered = true; // Still mark as rendered to avoid hanging'',
       ''              document.dispatchEvent(new CustomEvent('mermaid-error'));'',
       ''            });'',
       ''          } catch (error) {'',
       ''            console.error('Mermaid initialization error:', error);'',
       ''            window.mermaidRendered = true; // Still mark as rendered to avoid hanging'',
       ''          }'',
       ''        });'',
       ''      </script>'',
       ''      ''
      ]\<close>

definition mermaidScript :: "bool \<Rightarrow> string" where
  "mermaidScript hasMermaidDiagrams = (if hasMermaidDiagrams then mermaid_script_text else [])"

text \<open>
  The expression of the watermark slot, \<open>watermark ? `<div class="watermark">...</div>` : ''\<close>:
  a string is truthy when it is not empty.
\<close>

definition watermark_open :: string where
  \<open>watermark_open = ''<div class="watermark">''\<close>

definition watermark_layer :: "string \<Rightarrow> string" where
  \<open>watermark_layer watermark =
     (if watermark \<noteq> [] then watermark_open @ watermark @ ''</div>'' else [])\<close>

text \<open>
  The page box: \<open>paperFormat === 'letter' ? '8.5in' : '210mm'\<close> for the width and
  \<open>paperFormat === 'letter' ? '11in' : '297mm'\<close> for the height.
\<close>

definition page_width :: "string \<Rightarrow> string" where
  "page_width paperFormat = (if paperFormat = ''letter'' then ''8.5in'' else ''210mm'')"

definition page_height :: "string \<Rightarrow> string" where
  "page_height paperFormat = (if paperFormat = ''letter'' then ''11in'' else ''297mm'')"

text \<open>The template up to the place of \<open>${htmlContent}\<close>, and the template after it.\<close>

definition html_before_content :: "string \<Rightarrow> string \<Rightarrow> string \<Rightarrow> string" where
  \<open>html_before_content paperFormat paperOrientation script = join_lines
     [
       '''',
       ''<!DOCTYPE html>'',
       ''<html>'',
       ''<head>'',
       ''  <meta charset="utf-8">'',
       ''  <style>'',
       ''    @page {'',
       ''      margin: 20px;'',
       ''      size: '' @ paperFormat @ '' '' @ paperOrientation @ '';'',
       ''    }'',
       ''    html, body {'',
       ''      margin: 0;'',
       ''      padding: 0;'',
       ''      width: 100%;'',
       ''      height: 100%;'',
       ''    }'',
       ''    .page {'',
       ''      position: relative;'',
       ''      width: '' @ page_width paperFormat @ '';'',
       ''      height: '' @ page_height paperFormat @ '';'',
       ''      margin: 0;'',
       ''      padding: 20px;'',
       ''      box-sizing: border-box;'',
       ''    }'',
       ''    .content {'',
       ''      position: relative;'',
       ''      z-index: 1;'',
       ''    }'',
       ''    .watermark {'',
       ''      position: absolute;'',
       ''      left: 0;'',
       ''      top: 0;'',
       ''      right: 0;'',
       ''      bottom: 0;'',
       ''      display: flex;'',
       ''      justify-content: center;'',
       ''      align-items: center;'',
       ''      font-size: calc('' @ page_width paperFormat @ '' * 0.14);'',
       ''      color: rgba(0, 0, 0, 0.15);'',
       ''      font-family: Arial, sans-serif;'',
       ''      white-space: nowrap;'',
       ''      pointer-events: none;'',
       ''      z-index: 0;'',
       ''      transform: rotate(-45deg);'',
       ''    }'',
       ''    /* Mermaid styling */'',
       ''    .mermaid {'',
       ''      text-align: center;'',
       ''      margin: 20px 0;'',
       ''    }'',
       ''    .mermaid-error {'',
       ''      color: red;'',
       ''      border: 1px solid red;'',
       ''      padding: 10px;'',
       ''      margin: 10px 0;'',
       ''    }'',
       ''  </style>'',
       ''  '' @ script,
       ''</head>'',
       ''<body>'',
       ''  <div class="page">'',
       ''    <div class="content">''
      ] @ CHR 0x0A # ''      ''\<close>

definition html_after_content :: "string \<Rightarrow> string" where
  \<open>html_after_content watermark = CHR 0x0A # join_lines
     [
       ''    </div>'',
       ''    '' @ watermark_layer watermark,
       ''  </div>'',
       ''</body>'',
       ''</html>''
      ]\<close>

definition html_document :: "string \<Rightarrow> string \<Rightarrow> bool \<Rightarrow> string \<Rightarrow> string \<Rightarrow> string" where
  "html_document paperFormat paperOrientation hasMermaidDiagrams htmlContent watermark =
     html_before_content paperFormat paperOrientation (mermaidScript hasMermaidDiagrams) @
     htmlContent @ html_after_content watermark"

section \<open>The environment of a call\<close>

text \<open>
  Everything the server takes from outside the repository is a field of the environment:
  the process environment, Node's \<open>path\<close> and \<open>fs\<close> modules, the markdown engine
  (\<open>Remarkable\<close>), the highlighter (\<open>highlight.js\<close>), \<open>tmp\<close> and the Puppeteer renderer
  behind \<open>./puppeteer/render.js\<close>. A call that can throw or reject returns the thrown value
  (\<open>Inl\<close>, or \<open>Some\<close> for a call without a result). \<open>existsSync\<close> is read only before
  anything is written, so one state of the file system serves the whole call.
\<close>

record RenderPDFOptions =
  htmlPath :: string
  pdfPath :: string
  runningsPath :: string
  cssPath :: string
  highlightCssPath :: string
  paperFormat :: string
  paperOrientation :: string
  paperBorder :: string
  showPageNumbers :: "bool option"
  renderDelay :: nat
  loadTimeout :: nat

record env =
  M2P_OUTPUT_DIR :: "string option"
  HOME :: "string option"
  cwd :: string
  dirname_of_module :: string
  path_resolve :: "string list \<Rightarrow> string"
  path_join :: "string \<Rightarrow> string \<Rightarrow> string"
  path_dirname :: "string \<Rightarrow> string"
  path_extname :: "string \<Rightarrow> string"
  path_basename :: "string \<Rightarrow> string \<Rightarrow> string"
  existsSync :: "string \<Rightarrow> bool"
  mkdirSync :: "string \<Rightarrow> js_error option"
  hljs_getLanguage :: "string \<Rightarrow> bool"
  hljs_highlight :: "string \<Rightarrow> string \<Rightarrow> js_error + string"
  hljs_highlightAuto :: "string \<Rightarrow> js_error + string"
  remarkable_render :: "(string \<Rightarrow> string \<Rightarrow> js_error + string) \<Rightarrow> string \<Rightarrow> js_error + string"
  tmp_file :: "js_error + string \<times> nat"
  closeSync :: "nat \<Rightarrow> js_error option"
  writeFile :: "string \<Rightarrow> string \<Rightarrow> js_error option"
  import_renderer :: "js_error option"
  renderPDF :: "RenderPDFOptions \<Rightarrow> js_error + bool"

text \<open>The calls a conversion makes that act on the world, in the order it makes them.\<close>

datatype effect =
  MkdirSync string
| TmpFile
| CloseSync nat
| WriteFile string string
| ImportRenderer
| RenderPDF RenderPDFOptions

text \<open>
  How an \<open>async\<close> call ends: its promise is fulfilled, is rejected with a thrown value, or
  never settles.
\<close>

datatype 'a promise = Fulfilled 'a | Rejected js_error | Pending

section \<open>The file path resolver\<close>

text \<open>
  The counter of \<open>getIncrementalPath\<close> is a natural number (a JavaScript number counts
  exactly far beyond any number of files), and a counter in a template literal prints in
  decimal.
\<close>

definition digit_char :: "nat \<Rightarrow> char" where
  "digit_char d = char_of (48 + d)"

fun show_nat :: "nat \<Rightarrow> string" where
  "show_nat n = (if n < 10 then [digit_char n] else show_nat (n div 10) @ [digit_char (n mod 10)])"

declare show_nat.simps [simp del]

text \<open>
  The \<open>while\<close> loop of \<open>getIncrementalPath\<close>. It runs as long as the candidate exists, so
  it is a partial function: \<open>None\<close> stands for a loop that never ends.
\<close>

partial_function (option) increment_loop ::
  "(string \<Rightarrow> bool) \<Rightarrow> (nat \<Rightarrow> string) \<Rightarrow> nat \<Rightarrow> string \<Rightarrow> string option" where
  "increment_loop exists candidate counter newPath =
     (if exists newPath then increment_loop exists candidate (counter + 1) (candidate counter)
      else Some newPath)"

declare increment_loop.simps [code]

definition getIncrementalPath :: "env \<Rightarrow> string \<Rightarrow> string option" where
  "getIncrementalPath e basePath =
     (let dir = path_dirname e basePath;
          ext = path_extname e basePath;
          name = path_basename e basePath ext
      in increment_loop (existsSync e)
           (\<lambda>counter. path_join e dir (name @ ''-'' @ show_nat counter @ ext)) 1 basePath)"

section \<open>The markdown renderer's highlighter\<close>

text \<open>
  The \<open>highlight\<close> function given to \<open>Remarkable\<close>. A language tag is truthy when it is
  not empty.
\<close>

definition highlight_auto :: "env \<Rightarrow> string \<Rightarrow> js_error + string" where
  "highlight_auto e str =
     (case hljs_highlightAuto e str of Inr v \<Rightarrow> Inr v | Inl err \<Rightarrow> Inr [])"

definition highlight :: "env \<Rightarrow> string \<Rightarrow> string \<Rightarrow> js_error + string" where
  "highlight e str language =
     (if language \<noteq> [] \<and> hljs_getLanguage e language then
        (case hljs_highlight e str language of
           Inr v \<Rightarrow> Inr v
         | Inl err \<Rightarrow> highlight_auto e str)
      else highlight_auto e str)"

section \<open>The conversion pipeline\<close>

definition render_delay :: "bool \<Rightarrow> nat" where
  "render_delay hasMermaidDiagrams = (if hasMermaidDiagrams then 10000 else 5000)"

text \<open>The object given to \<open>renderPDF\<close>; the call sets no \<open>showPageNumbers\<close>.\<close>

definition renderPDF_options ::
  "env \<Rightarrow> string \<Rightarrow> string \<Rightarrow> string \<Rightarrow> string \<Rightarrow> string \<Rightarrow> bool \<Rightarrow> RenderPDFOptions" where
  "renderPDF_options e tmpHtmlPath outputPath paperFormat' paperOrientation' paperBorder'
       hasMermaidDiagrams =
     \<lparr>htmlPath = tmpHtmlPath,
      pdfPath = outputPath,
      runningsPath = path_resolve e [dirname_of_module e, ''runnings.js''],
      cssPath = path_resolve e [dirname_of_module e, ''css'', ''pdf.css''],
      highlightCssPath = [],
      paperFormat = paperFormat',
      paperOrientation = paperOrientation',
      paperBorder = paperBorder',
      showPageNumbers = None,
      renderDelay = render_delay hasMermaidDiagrams,
      loadTimeout = 60000\<rparr>"

text \<open>
  The callback given to \<open>tmp.file\<close>. It is an \<open>async\<close> function: what it throws outside
  its \<open>try\<close> block rejects the callback's own promise, which nobody awaits, and neither
  \<open>resolve\<close> nor \<open>reject\<close> of the conversion's promise is called. \<open>fs.closeSync\<close> stands
  before the \<open>try\<close>.
\<close>

definition tmp_file_callback ::
  "env \<Rightarrow> string \<Rightarrow> string \<Rightarrow> string \<Rightarrow> string \<Rightarrow> string \<Rightarrow> bool \<Rightarrow>
   js_error + string \<times> nat \<Rightarrow> unit promise \<times> effect list" where
  "tmp_file_callback e html outputPath paperFormat' paperOrientation' paperBorder'
       hasMermaidDiagrams created =
     (case created of
        Inl err \<Rightarrow> (Rejected err, [])
      | Inr (tmpHtmlPath, tmpHtmlFd) \<Rightarrow>
          (case closeSync e tmpHtmlFd of
             Some err \<Rightarrow> (Pending, [CloseSync tmpHtmlFd])
           | None \<Rightarrow>
               (case writeFile e tmpHtmlPath html of
                  Some err \<Rightarrow> (Rejected err, [CloseSync tmpHtmlFd, WriteFile tmpHtmlPath html])
                | None \<Rightarrow>
                    (case import_renderer e of
                       Some err \<Rightarrow>
                         (Rejected err,
                          [CloseSync tmpHtmlFd, WriteFile tmpHtmlPath html, ImportRenderer])
                     | None \<Rightarrow>
                         (let opts = renderPDF_options e tmpHtmlPath outputPath paperFormat'
                                paperOrientation' paperBorder' hasMermaidDiagrams
                          in case renderPDF e opts of
                               Inl err \<Rightarrow>
                                 (Rejected err,
                                  [CloseSync tmpHtmlFd, WriteFile tmpHtmlPath html,
                                   ImportRenderer, RenderPDF opts])
                             | Inr done \<Rightarrow>
                                 (Fulfilled (),
                                  [CloseSync tmpHtmlFd, WriteFile tmpHtmlPath html,
                                   ImportRenderer, RenderPDF opts]))))))"

text \<open>
  The two statements of \<open>convertToPdf\<close> that make the body of the page from the protected
  markdown: \<open>let htmlContent = mdParser.render(processedMarkdown)\<close> and
  \<open>htmlContent = this.restoreMermaidDiagrams(htmlContent)\<close>.
\<close>

definition render_and_restore :: "env \<Rightarrow> string \<Rightarrow> js_error + string" where
  "render_and_restore e processedMarkdown =
     (case remarkable_render e (highlight e) processedMarkdown of
        Inl err \<Rightarrow> Inl err
      | Inr rendered \<Rightarrow> restoreMermaidDiagrams decode_base64_utf8 rendered)"

text \<open>
  \<open>convertToPdf\<close>: the executor of the promise runs synchronously up to \<open>tmp.file\<close>, and
  what it throws there rejects the promise. A loop of \<open>getIncrementalPath\<close> that never
  ends leaves the promise unsettled.
\<close>

definition convertToPdf ::
  "env \<Rightarrow> string \<Rightarrow> string \<Rightarrow> string \<Rightarrow> string \<Rightarrow> string \<Rightarrow> string \<Rightarrow> unit promise \<times> effect list" where
  "convertToPdf e markdown outputPath paperFormat' paperOrientation' paperBorder' watermark =
     (case getIncrementalPath e outputPath of
        None \<Rightarrow> (Pending, [])
      | Some incrementalPath \<Rightarrow>
          (let outputPath' = path_resolve e [incrementalPath];
               outputDir = path_dirname e outputPath'
           in case mkdirSync e outputDir of
                Some err \<Rightarrow> (Rejected err, [MkdirSync outputDir])
              | None \<Rightarrow>
                  (let (processedMarkdown, hasMermaidDiagrams) = processMermaidDiagrams markdown
                   in case render_and_restore e processedMarkdown of
                        Inl err \<Rightarrow> (Rejected err, [MkdirSync outputDir])
                      | Inr htmlContent \<Rightarrow>
                          (let html = html_document paperFormat' paperOrientation'
                                 hasMermaidDiagrams htmlContent watermark;
                               (settled, effects) = tmp_file_callback e html outputPath'
                                 paperFormat' paperOrientation' paperBorder'
                                 hasMermaidDiagrams (tmp_file e)
                           in (settled, MkdirSync outputDir # TmpFile # effects)))))"

section \<open>The tool call handler\<close>

record CallToolArguments =
  arg_markdown :: string
  arg_outputFilename :: "string option"
  arg_paperFormat :: "string option"
  arg_paperOrientation :: "string option"
  arg_paperBorder :: "string option"
  arg_watermark :: "string option"

record CallToolRequest =
  params_name :: string
  params_arguments :: CallToolArguments

record CallToolResult =
  content_text :: string
  isError :: bool

text \<open>
  \<open>process.env.HOME || process.cwd()\<close> and the choice of the output directory: a variable
  of the process environment counts when it is set and not empty.
\<close>

definition home_or_cwd :: "env \<Rightarrow> string" where
  "home_or_cwd e =
     (case HOME e of None \<Rightarrow> cwd e | Some home \<Rightarrow> if home \<noteq> [] then home else cwd e)"

definition output_directory :: "env \<Rightarrow> string" where
  "output_directory e =
     (case M2P_OUTPUT_DIR e of
        None \<Rightarrow> path_resolve e [home_or_cwd e]
      | Some dir \<Rightarrow> if dir \<noteq> [] then path_resolve e [dir] else path_resolve e [home_or_cwd e])"

text \<open>A destructuring default stands in for a field that is not given.\<close>

definition with_default :: "string \<Rightarrow> string option \<Rightarrow> string" where
  "with_default d v = (case v of None \<Rightarrow> d | Some s \<Rightarrow> s)"

definition pdf_filename :: "string \<Rightarrow> string" where
  "pdf_filename outputFilename =
     (if endsWith (toLowerCase outputFilename) ''.pdf'' then outputFilename
      else outputFilename @ ''.pdf'')"

definition error_message :: "js_error \<Rightarrow> string" where
  "error_message error = (case error of Error m \<Rightarrow> m | Thrown s \<Rightarrow> s)"

definition tool_name :: string where
  "tool_name = ''create_pdf_from_markdown''"

text \<open>
  \<open>new McpError(ErrorCode.MethodNotFound, text)\<close>: an \<open>Error\<close> whose message the SDK builds
  from the JSON-RPC code -32601 and the text.
\<close>

definition McpError_MethodNotFound :: "string \<Rightarrow> js_error" where
  "McpError_MethodNotFound text = Error (''MCP error -32601: '' @ text)"

definition CallToolHandler :: "env \<Rightarrow> CallToolRequest \<Rightarrow> CallToolResult promise \<times> effect list" where
  "CallToolHandler e request =
     (if params_name request \<noteq> tool_name then
        (Rejected (McpError_MethodNotFound (''Unknown tool: '' @ params_name request)), [])
      else
        (let outputDir = output_directory e;
             args = params_arguments request;
             markdown = arg_markdown args;
             outputFilename = with_default ''output.pdf'' (arg_outputFilename args);
             paperFormat' = with_default ''letter'' (arg_paperFormat args);
             paperOrientation' = with_default ''portrait'' (arg_paperOrientation args);
             paperBorder' = with_default ''2cm'' (arg_paperBorder args);
             watermark = with_default [] (arg_watermark args);
             filename = pdf_filename outputFilename;
             outputPath = path_join e outputDir filename;
             (settled, effects) = convertToPdf e markdown outputPath paperFormat'
               paperOrientation' paperBorder' watermark
         in case settled of
              Fulfilled u \<Rightarrow>
                (Fulfilled \<lparr>content_text = ''Successfully created PDF at: '' @
                    path_resolve e [outputPath], isError = False\<rparr>, effects)
            | Rejected error \<Rightarrow>
                (Fulfilled \<lparr>content_text = ''Failed to create PDF: '' @ error_message error,
                    isError = True\<rparr>, effects)
            | Pending \<Rightarrow> (Pending, effects)))"

section \<open>Notions for stating the properties\<close>




text \<open>A scanned markdown text with every block body trimmed and encoded.\<close>

definition encoded :: "piece \<Rightarrow> piece" where
  "encoded p =
     (case p of
        Keep c \<Rightarrow> Keep c
      | Match code \<Rightarrow> Match (toString_base64 (Buffer_from (trim code))))"

text \<open>
  The file name and the path that \<open>getIncrementalPath\<close> tries for a value of its counter.
\<close>

definition candidate_name :: "env \<Rightarrow> string \<Rightarrow> nat \<Rightarrow> string" where
  "candidate_name e basePath counter =
     path_basename e basePath (path_extname e basePath) @ ''-'' @ show_nat counter @
     path_extname e basePath"

definition candidate_path :: "env \<Rightarrow> string \<Rightarrow> nat \<Rightarrow> string" where
  "candidate_path e basePath counter =
     path_join e (path_dirname e basePath) (candidate_name e basePath counter)"

text \<open>The conversion that the handler starts for a call of the tool.\<close>

definition requested_conversion :: "env \<Rightarrow> CallToolRequest \<Rightarrow> unit promise \<times> effect list" where
  "requested_conversion e request =
     convertToPdf e (arg_markdown (params_arguments request))
       (path_join e (output_directory e)
          (pdf_filename (with_default ''output.pdf'' (arg_outputFilename (params_arguments request)))))
       (with_default ''letter'' (arg_paperFormat (params_arguments request)))
       (with_default ''portrait'' (arg_paperOrientation (params_arguments request)))
       (with_default ''2cm'' (arg_paperBorder (params_arguments request)))
       (with_default [] (arg_watermark (params_arguments request)))"

text \<open>The number of places of a text at which a pattern starts.\<close>

fun occurrences :: "string \<Rightarrow> string \<Rightarrow> nat" where
  "occurrences pat [] = 0"
| "occurrences pat (c # cs) = (if prefix pat (c # cs) then 1 else 0) + occurrences pat cs"

section \<open>A sample environment\<close>

text \<open>
  Stand-ins for the platform, to run the model on examples: path functions that agree with
  Node's on an absolute, normalised path whose last component is a plain file name; a file
  system with no file; a markdown engine that wraps its input in one paragraph, as
  \<open>Remarkable\<close> does for a line of text without markup; calls that succeed.
\<close>

definition sample_dirname :: "string \<Rightarrow> string" where
  "sample_dirname p = rev (drop 1 (dropWhile (\<lambda>c. c \<noteq> CHR ''/'') (rev p)))"

definition sample_filename :: "string \<Rightarrow> string" where
  "sample_filename p = rev (takeWhile (\<lambda>c. c \<noteq> CHR ''/'') (rev p))"

definition sample_extname :: "string \<Rightarrow> string" where
  "sample_extname p =
     (let f = sample_filename p
      in if CHR ''.'' \<in> set (drop 1 f) then CHR ''.'' # rev (takeWhile (\<lambda>c. c \<noteq> CHR ''.'') (rev f))
         else [])"

definition sample_basename :: "string \<Rightarrow> string \<Rightarrow> string" where
  "sample_basename p ext =
     (let f = sample_filename p
      in if ext \<noteq> [] \<and> suffix ext f \<and> ext \<noteq> f then take (length f - length ext) f else f)"

definition sample_join :: "string \<Rightarrow> string \<Rightarrow> string" where
  "sample_join dir file = dir @ ''/'' @ file"

fun sample_resolve :: "string list \<Rightarrow> string" where
  "sample_resolve [] = []"
| "sample_resolve [p] = p"
| "sample_resolve (p # ps) = p @ ''/'' @ sample_resolve ps"

definition sample_paragraph :: "(string \<Rightarrow> string \<Rightarrow> js_error + string) \<Rightarrow> string \<Rightarrow> js_error + string" where
  "sample_paragraph highlighter text = Inr (''<p>'' @ text @ ''</p>'' @ [CHR 0x0A])"

definition sample_env :: env where
  "sample_env =
     \<lparr>M2P_OUTPUT_DIR = None,
      HOME = Some ''/home/user'',
      cwd = ''/srv'',
      dirname_of_module = ''/app/build'',
      path_resolve = sample_resolve,
      path_join = sample_join,
      path_dirname = sample_dirname,
      path_extname = sample_extname,
      path_basename = sample_basename,
      existsSync = (\<lambda>p. False),
      mkdirSync = (\<lambda>dir. None),
      hljs_getLanguage = (\<lambda>language. language = ''javascript''),
      hljs_highlight = (\<lambda>str language. Inr str),
      hljs_highlightAuto = (\<lambda>str. Inr str),
      remarkable_render = sample_paragraph,
      tmp_file = Inr (''/tmp/tmp-1.html'', 3),
      closeSync = (\<lambda>fd. None),
      writeFile = (\<lambda>file text. None),
      import_renderer = None,
      renderPDF = (\<lambda>opts. Inr True)\<rparr>"

section \<open>Base64 round trip\<close>












section \<open>The two scans\<close>

declare placeholderRegex.simps [simp del] mermaidRegex.simps [simp del]

lemma captures_simps [simp]:
  "captures [] = []"
  "captures (Keep c # ps) = captures ps"
  "captures (Match code # ps) = code # captures ps"
  by (simp_all add: captures_def)


subsection \<open>The fence scan\<close>








subsection \<open>The placeholder scan\<close>







lemma captures_map_encoded:
  "captures (map encoded ps) =
   map (\<lambda>code. toString_base64 (Buffer_from (trim code))) (captures ps)"
proof (induction ps)
  case Nil
  then show ?case by simp
next
  case (Cons p ps)
  then show ?case
    by (cases p) (simp_all add: encoded_def)
qed

subsection \<open>The replacement of \<open>restoreMermaidDiagrams\<close> never throws\<close>

lemma replace_try_restore_callback:
  "replace_try (restore_callback decode) ps =
   Inr (replace_with
     (\<lambda>encodedCode. case decode encodedCode of
         Inr mermaidCode \<Rightarrow> mermaid_container mermaidCode
       | Inl error \<Rightarrow> mermaid_error_marker) ps)"
proof (induction ps)
  case Nil
  then show ?case by simp
next
  case (Cons p ps)
  then show ?case
    by (cases p) (simp_all add: restore_callback_def split: sum.splits)
qed

section \<open>Claims about the diagram protector\<close>

subsection \<open>The replacement as a text\<close>

lemma restoreMermaidDiagrams_text:
  \<open>restoreMermaidDiagrams decode htmlContent =
     Inr (replace_with
       (\<lambda>encodedCode. case decode encodedCode of
           Inr mermaidCode \<Rightarrow> ''<div class="mermaid">'' @ mermaidCode @ ''</div>''
         | Inl error \<Rightarrow> ''<div class="mermaid-error">Error processing diagram</div>'')
       (placeholderRegex htmlContent))\<close>
  unfolding restoreMermaidDiagrams_def replace_try_restore_callback
    mermaid_container_def mermaid_error_marker_def ..



subsection \<open>Trimming only takes away\<close>







subsection \<open>Decode errors\<close>

text \<open>
  Claim C9. \<open>restoreMermaidDiagrams\<close> never throws, whatever the decoder does: it returns
  the HTML text in which every placeholder token is replaced on its own, by
  \<open><div class="mermaid">\<close>, the decoded source, \<open></div>\<close> when decoding succeeds and by
  \<open><div class="mermaid-error">Error processing diagram</div>\<close> when decoding throws. And
  when a decoder is made to throw on one token, the result changes at the places of that
  token, which get the error marker, and nowhere else.
\<close>

theorem restoreMermaidDiagrams_isolates_decode_errors:
  \<open>restoreMermaidDiagrams decode htmlContent =
     Inr (replace_with
       (\<lambda>encodedCode. case decode encodedCode of
           Inr mermaidCode \<Rightarrow> ''<div class="mermaid">'' @ mermaidCode @ ''</div>''
         | Inl error \<Rightarrow> ''<div class="mermaid-error">Error processing diagram</div>'')
       (placeholderRegex htmlContent)) \<and>
   restoreMermaidDiagrams
       (\<lambda>encodedCode. if encodedCode = token then Inl thrown else decode encodedCode)
       htmlContent =
     Inr (replace_with
       (\<lambda>encodedCode.
           if encodedCode = token
           then ''<div class="mermaid-error">Error processing diagram</div>''
           else (case decode encodedCode of
               Inr mermaidCode \<Rightarrow> ''<div class="mermaid">'' @ mermaidCode @ ''</div>''
             | Inl error \<Rightarrow> ''<div class="mermaid-error">Error processing diagram</div>''))
       (placeholderRegex htmlContent))\<close>
proof -
  have \<open>(\<lambda>encodedCode.
      case (if encodedCode = token then Inl thrown else decode encodedCode) of
        Inr mermaidCode \<Rightarrow> ''<div class="mermaid">'' @ mermaidCode @ ''</div>''
      | Inl error \<Rightarrow> ''<div class="mermaid-error">Error processing diagram</div>'') =
    (\<lambda>encodedCode.
      if encodedCode = token
      then ''<div class="mermaid-error">Error processing diagram</div>''
      else (case decode encodedCode of
          Inr mermaidCode \<Rightarrow> ''<div class="mermaid">'' @ mermaidCode @ ''</div>''
        | Inl error \<Rightarrow> ''<div class="mermaid-error">Error processing diagram</div>''))\<close>
    by (rule ext) simp
  then show ?thesis
    by (simp only: restoreMermaidDiagrams_text)
qed

text \<open>
  Witness for C9: the server's decoder, made to throw on the token \<open>cGll\<close>. In a text with
  the tokens \<open>cGll\<close> and \<open>QQ==\<close> the first is replaced by the error marker and the second
  by the container of its source \<open>A\<close>, as with the decoder that does not throw.
\<close>

theorem restoreMermaidDiagrams_isolates_decode_errors_witness:
  \<open>restoreMermaidDiagrams decode_base64_utf8
     ''MERMAID_DIAGRAM_PLACEHOLDER_cGll MERMAID_DIAGRAM_PLACEHOLDER_QQ=='' =
     Inr ''<div class="mermaid">pie</div> <div class="mermaid">A</div>'' \<and>
   restoreMermaidDiagrams
     (\<lambda>encodedCode. if encodedCode = ''cGll'' then Inl (Error ''bad payload'')
        else decode_base64_utf8 encodedCode)
     ''MERMAID_DIAGRAM_PLACEHOLDER_cGll MERMAID_DIAGRAM_PLACEHOLDER_QQ=='' =
     Inr ''<div class="mermaid-error">Error processing diagram</div> <div class="mermaid">A</div>''\<close>
proof -
  let ?html = "''MERMAID_DIAGRAM_PLACEHOLDER_cGll MERMAID_DIAGRAM_PLACEHOLDER_QQ==''"
  have scan: "placeholderRegex ?html = [Match ''cGll'', Keep CHR '' '', Match ''QQ=='']"
    by code_simp
  have decoded: "decode_base64_utf8 ''cGll'' = Inr ''pie''" "decode_base64_utf8 ''QQ=='' = Inr ''A''"
    by code_simp+
  note t = restoreMermaidDiagrams_isolates_decode_errors
    [of decode_base64_utf8 ?html "''cGll''" "Error ''bad payload''"]
  from t have \<open>restoreMermaidDiagrams decode_base64_utf8 ?html =
      Inr ''<div class="mermaid">pie</div> <div class="mermaid">A</div>''\<close>
    unfolding scan by (simp add: decoded)
  moreover from t have \<open>restoreMermaidDiagrams
      (\<lambda>encodedCode. if encodedCode = ''cGll'' then Inl (Error ''bad payload'')
         else decode_base64_utf8 encodedCode) ?html =
      Inr ''<div class="mermaid-error">Error processing diagram</div> <div class="mermaid">A</div>''\<close>
    unfolding scan by (simp add: decoded)
  ultimately show ?thesis
    by (rule conjI)
qed

subsection \<open>Protect, then restore\<close>





subsection \<open>Protect, render, restore\<close>






section \<open>Claims about the highlighter and the file name\<close>

text \<open>
  Claim C6. The highlighter given to the markdown engine never throws: it always returns
  a string. When the language tag is not empty and names a language the library knows,
  and highlighting with that language succeeds, the result is that highlighting. In every
  other case (no tag, an unknown tag, or a failed attempt) the result is that of automatic
  detection when it succeeds, and the empty string when it throws too.
\<close>

theorem highlight_never_throws:
  "\<exists>out. highlight e str language = Inr out \<and>
     (language \<noteq> [] \<and> hljs_getLanguage e language \<and>
        (\<exists>v. hljs_highlight e str language = Inr v) \<longrightarrow>
        hljs_highlight e str language = Inr out) \<and>
     (language = [] \<or> \<not> hljs_getLanguage e language \<or>
        (\<exists>err. hljs_highlight e str language = Inl err) \<longrightarrow>
        (case hljs_highlightAuto e str of Inr v \<Rightarrow> out = v | Inl err \<Rightarrow> out = []))"
  by (cases "hljs_highlight e str language"; cases "hljs_highlightAuto e str")
    (auto simp: highlight_def highlight_auto_def)

definition broken_hljs :: env where
  "broken_hljs = sample_env
     \<lparr>hljs_highlight := (\<lambda>str language. Inl (Error ''highlight failed'')),
      hljs_highlightAuto := (\<lambda>str. Inl (Error ''no language detected''))\<rparr>"

text \<open>
  Witness for C6: a highlighter library that knows \<open>javascript\<close> only, throws on it, and
  throws on automatic detection as well; the result is the empty string. With the sample
  library, which succeeds, the tagged fence is highlighted with its language.
\<close>

theorem highlight_never_throws_witness:
  "highlight broken_hljs ''let x = 1;'' ''javascript'' = Inr [] \<and>
   highlight broken_hljs ''let x = 1;'' ''klingon'' = Inr [] \<and>
   highlight sample_env ''let x = 1;'' ''javascript'' = Inr ''let x = 1;''"
proof -
  obtain out where out: "highlight broken_hljs ''let x = 1;'' ''javascript'' = Inr out"
    and auto: "''javascript'' = [] \<or> \<not> hljs_getLanguage broken_hljs ''javascript'' \<or>
        (\<exists>err. hljs_highlight broken_hljs ''let x = 1;'' ''javascript'' = Inl err) \<longrightarrow>
        (case hljs_highlightAuto broken_hljs ''let x = 1;'' of Inr v \<Rightarrow> out = v | Inl err \<Rightarrow> out = [])"
    using highlight_never_throws [of broken_hljs "''let x = 1;''" "''javascript''"] by blast
  have "\<exists>err. hljs_highlight broken_hljs ''let x = 1;'' ''javascript'' = Inl err"
    by (simp add: broken_hljs_def)
  with auto have "out = []"
    by (simp add: broken_hljs_def)
  with out have "highlight broken_hljs ''let x = 1;'' ''javascript'' = Inr []"
    by simp
  moreover have "highlight broken_hljs ''let x = 1;'' ''klingon'' = Inr []"
    by (simp add: highlight_def highlight_auto_def broken_hljs_def sample_env_def)
  moreover have "highlight sample_env ''let x = 1;'' ''javascript'' = Inr ''let x = 1;''"
    by (simp add: highlight_def highlight_auto_def sample_env_def)
  ultimately show ?thesis
    by blast
qed

text \<open>
  Claim C3. The normalised file name always ends in \<open>.pdf\<close> under the case-insensitive
  test; it is the given name when that test holds for the given name, and the given name
  with \<open>.pdf\<close> appended when it does not. So \<open>report\<close> becomes \<open>report.pdf\<close> and
  \<open>REPORT.PDF\<close> stays as it is.
\<close>

theorem pdf_filename_ends_in_pdf:
  "endsWith (toLowerCase (pdf_filename outputFilename)) ''.pdf'' \<and>
   (endsWith (toLowerCase outputFilename) ''.pdf'' \<longrightarrow> pdf_filename outputFilename = outputFilename) \<and>
   (\<not> endsWith (toLowerCase outputFilename) ''.pdf'' \<longrightarrow>
      pdf_filename outputFilename = outputFilename @ ''.pdf'') \<and>
   pdf_filename ''report'' = ''report.pdf'' \<and>
   pdf_filename ''REPORT.PDF'' = ''REPORT.PDF''"
proof -
  have lower: "toLowerCase ''.pdf'' = ''.pdf''"
    by (simp add: toLowerCase_def lower_char_def)
  have "endsWith (toLowerCase (outputFilename @ ''.pdf'')) ''.pdf''"
    using lower by (simp add: toLowerCase_def endsWith_def suffix_def)
  then have "endsWith (toLowerCase (pdf_filename outputFilename)) ''.pdf''"
    by (simp add: pdf_filename_def)
  moreover have "pdf_filename ''report'' = ''report.pdf''"
    by code_simp
  moreover have "pdf_filename ''REPORT.PDF'' = ''REPORT.PDF''"
    by code_simp
  ultimately show ?thesis
    by (simp add: pdf_filename_def)
qed

text \<open>
  Witness for C3: \<open>Report.Pdf\<close> passes the test and is kept; \<open>notes.txt\<close> fails it and gets
  the suffix.
\<close>

theorem pdf_filename_ends_in_pdf_witness:
  "endsWith (toLowerCase ''Report.Pdf'') ''.pdf'' \<and>
   pdf_filename ''Report.Pdf'' = ''Report.Pdf'' \<and>
   \<not> endsWith (toLowerCase ''notes.txt'') ''.pdf'' \<and>
   pdf_filename ''notes.txt'' = ''notes.txt.pdf'' \<and>
   endsWith (toLowerCase (pdf_filename ''notes.txt'')) ''.pdf''"
proof -
  have yes: "endsWith (toLowerCase ''Report.Pdf'') ''.pdf''"
    by code_simp
  have no: "\<not> endsWith (toLowerCase ''notes.txt'') ''.pdf''"
    by code_simp
  from pdf_filename_ends_in_pdf [of "''Report.Pdf''"] yes
  have kept: "pdf_filename ''Report.Pdf'' = ''Report.Pdf''"
    by blast
  from pdf_filename_ends_in_pdf [of "''notes.txt''"] no
  have appended: "pdf_filename ''notes.txt'' = ''notes.txt'' @ ''.pdf''"
    and ends: "endsWith (toLowerCase (pdf_filename ''notes.txt'')) ''.pdf''"
    by blast+
  from appended have "pdf_filename ''notes.txt'' = ''notes.txt.pdf''"
    by simp
  with yes no kept ends show ?thesis
    by blast
qed

section \<open>Claims about the conversion pipeline and the call handler\<close>

definition sample_request :: "string \<Rightarrow> string option \<Rightarrow> CallToolRequest" where
  "sample_request markdown watermark =
     \<lparr>params_name = tool_name,
      params_arguments =
        \<lparr>arg_markdown = markdown, arg_outputFilename = None, arg_paperFormat = None,
         arg_paperOrientation = None, arg_paperBorder = None, arg_watermark = watermark\<rparr>\<rparr>"




lemma CallToolHandler_settles:
  "params_name request = tool_name \<Longrightarrow>
   fst (CallToolHandler e request) =
     (case fst (requested_conversion e request) of
        Fulfilled u \<Rightarrow>
          Fulfilled \<lparr>content_text = ''Successfully created PDF at: '' @
            path_resolve e [path_join e (output_directory e)
              (pdf_filename (with_default ''output.pdf''
                 (arg_outputFilename (params_arguments request))))],
            isError = False\<rparr>
      | Rejected error \<Rightarrow>
          Fulfilled \<lparr>content_text = ''Failed to create PDF: '' @ error_message error,
            isError = True\<rparr>
      | Pending \<Rightarrow> Pending)"
  by (simp add: CallToolHandler_def requested_conversion_def Let_def
      split: prod.splits promise.splits)


subsection \<open>Calls in the sample environment\<close>

lemma sample_paths:
  "sample_join ''/home/user'' ''output.pdf'' = ''/home/user/output.pdf''"
  "sample_dirname ''/home/user/output.pdf'' = ''/home/user''"
  by (simp_all add: sample_join_def sample_dirname_def)

lemma pdf_filename_default: "pdf_filename ''output.pdf'' = ''output.pdf''"
  by code_simp

lemma sample_call:
  assumes "processMermaidDiagrams markdown = (processedMarkdown, hasMermaidDiagrams)"
    and "restoreMermaidDiagrams decode_base64_utf8 (''<p>'' @ processedMarkdown @ ''</p>\<newline>'') =
      Inr htmlContent"
  shows "CallToolHandler sample_env (sample_request markdown watermark) =
    (Fulfilled \<lparr>content_text = ''Successfully created PDF at: /home/user/output.pdf'',
        isError = False\<rparr>,
     [MkdirSync ''/home/user'', TmpFile, CloseSync 3,
      WriteFile ''/tmp/tmp-1.html''
        (html_document ''letter'' ''portrait'' hasMermaidDiagrams htmlContent
           (with_default [] watermark)),
      ImportRenderer,
      RenderPDF (renderPDF_options sample_env ''/tmp/tmp-1.html'' ''/home/user/output.pdf''
        ''letter'' ''portrait'' ''2cm'' hasMermaidDiagrams)])"
  using assms
  by (simp add: CallToolHandler_def convertToPdf_def render_and_restore_def tmp_file_callback_def Let_def
      sample_env_def sample_request_def output_directory_def home_or_cwd_def
      pdf_filename_default sample_paths getIncrementalPath_def
      increment_loop.simps sample_paragraph_def renderPDF_options_def tool_name_def
      with_default_def [of _ None])

lemma hello_protected: "processMermaidDiagrams ''hello'' = (''hello'', False)"
  by code_simp

lemma hello_restored:
  "restoreMermaidDiagrams decode_base64_utf8 (''<p>'' @ ''hello'' @ ''</p>\<newline>'') =
   Inr ''<p>hello</p>\<newline>''"
  by code_simp




definition closing_fails :: env where
  "closing_fails =
     sample_env\<lparr>closeSync := (\<lambda>fd. Some (Error ''EBADF: bad file descriptor, close''))\<rparr>"

definition writing_fails :: env where
  "writing_fails =
     sample_env\<lparr>writeFile := (\<lambda>file text. Some (Error ''ENOSPC: no space left on device, write''))\<rparr>"

text \<open>
  Claim C7 does not hold of the code. The callback given to \<open>tmp.file\<close> is an \<open>async\<close>
  function and calls \<open>fs.closeSync\<close> before its \<open>try\<close> block. When that call throws,
  neither \<open>resolve\<close> nor \<open>reject\<close> is reached: the promise of \<open>convertToPdf\<close> never
  settles and the handler returns no result, neither a success nor an error result. A
  failure one statement later, of \<open>writeFile\<close> inside the \<open>try\<close> block, is reported as the
  claim says.
\<close>

theorem closeSync_error_is_not_reported:
  "CallToolHandler closing_fails (sample_request ''hello'' None) =
     (Pending, [MkdirSync ''/home/user'', TmpFile, CloseSync 3]) \<and>
   fst (CallToolHandler writing_fails (sample_request ''hello'' None)) =
     Fulfilled \<lparr>content_text = ''Failed to create PDF: ENOSPC: no space left on device, write'',
       isError = True\<rparr>"
proof
  show "CallToolHandler closing_fails (sample_request ''hello'' None) =
      (Pending, [MkdirSync ''/home/user'', TmpFile, CloseSync 3])"
    using hello_protected hello_restored
    by (simp add: CallToolHandler_def convertToPdf_def render_and_restore_def tmp_file_callback_def Let_def
        closing_fails_def sample_env_def sample_request_def output_directory_def home_or_cwd_def
        pdf_filename_default sample_paths getIncrementalPath_def
        increment_loop.simps sample_paragraph_def tool_name_def with_default_def)
next
  show "fst (CallToolHandler writing_fails (sample_request ''hello'' None)) =
      Fulfilled \<lparr>content_text = ''Failed to create PDF: ENOSPC: no space left on device, write'',
        isError = True\<rparr>"
    using hello_protected hello_restored
    by (simp add: CallToolHandler_def convertToPdf_def render_and_restore_def tmp_file_callback_def Let_def
        writing_fails_def sample_env_def sample_request_def output_directory_def home_or_cwd_def
        pdf_filename_default sample_paths getIncrementalPath_def
        increment_loop.simps sample_paragraph_def tool_name_def with_default_def
        error_message_def)
qed

text \<open>
  Claim C8 does not hold of the code. The limit of 15 characters stands in the schema
  that the handler of the tool list returns; the handler of a call reads the watermark
  from the arguments and passes it on without a test. A call with the watermark
  \<open>toolongwatermarktext\<close> (20 characters) runs the whole conversion: the document written
  for the renderer carries the watermark, and the call reports success.
\<close>

theorem long_watermark_reaches_convertToPdf:
  \<open>length ''toolongwatermarktext'' = 20 \<and>
   CallToolHandler sample_env (sample_request ''hello'' (Some ''toolongwatermarktext'')) =
     (Fulfilled \<lparr>content_text = ''Successfully created PDF at: /home/user/output.pdf'',
         isError = False\<rparr>,
      [MkdirSync ''/home/user'', TmpFile, CloseSync 3,
       WriteFile ''/tmp/tmp-1.html''
         (html_document ''letter'' ''portrait'' False ''<p>hello</p>\<newline>''
            ''toolongwatermarktext''),
       ImportRenderer,
       RenderPDF (renderPDF_options sample_env ''/tmp/tmp-1.html'' ''/home/user/output.pdf''
         ''letter'' ''portrait'' ''2cm'' False)]) \<and>
   watermark_layer ''toolongwatermarktext'' =
     ''<div class="watermark">toolongwatermarktext</div>''\<close>
proof -
  have "CallToolHandler sample_env (sample_request ''hello'' (Some ''toolongwatermarktext'')) =
     (Fulfilled \<lparr>content_text = ''Successfully created PDF at: /home/user/output.pdf'',
         isError = False\<rparr>,
      [MkdirSync ''/home/user'', TmpFile, CloseSync 3,
       WriteFile ''/tmp/tmp-1.html''
         (html_document ''letter'' ''portrait'' False ''<p>hello</p>\<newline>''
            ''toolongwatermarktext''),
       ImportRenderer,
       RenderPDF (renderPDF_options sample_env ''/tmp/tmp-1.html'' ''/home/user/output.pdf''
         ''letter'' ''portrait'' ''2cm'' False)])"
    by (simp add: sample_call [OF hello_protected hello_restored] with_default_def)
  moreover have \<open>watermark_layer ''toolongwatermarktext'' =
      ''<div class="watermark">toolongwatermarktext</div>''\<close>
    by (simp add: watermark_layer_def watermark_open_def)
  ultimately show ?thesis
    by simp
qed

text \<open>
  What does hold of the handler's error reporting: for a call of the tool, a conversion
  whose promise is rejected gives an error result that carries the message of the thrown
  value after \<open>Failed to create PDF: \<close>, and the handler's own promise is never rejected.
\<close>

theorem rejected_conversion_is_reported:
  assumes "params_name request = tool_name"
  shows "(\<forall>error. fst (requested_conversion e request) = Rejected error \<longrightarrow>
      fst (CallToolHandler e request) =
        Fulfilled \<lparr>content_text = ''Failed to create PDF: '' @ error_message error,
          isError = True\<rparr>) \<and>
    (\<forall>error. fst (CallToolHandler e request) \<noteq> Rejected error)"
  using assms
  by (cases "fst (requested_conversion e request)") (simp_all add: CallToolHandler_settles)

text \<open>
  Witness: in the environment where \<open>writeFile\<close> fails, the conversion for \<open>hello\<close> is
  rejected with that error and the handler returns the error result.
\<close>

theorem rejected_conversion_is_reported_witness:
  "params_name (sample_request ''hello'' None) = tool_name \<and>
   fst (requested_conversion writing_fails (sample_request ''hello'' None)) =
     Rejected (Error ''ENOSPC: no space left on device, write'') \<and>
   fst (CallToolHandler writing_fails (sample_request ''hello'' None)) =
     Fulfilled \<lparr>content_text = ''Failed to create PDF: ENOSPC: no space left on device, write'',
       isError = True\<rparr>"
proof -
  have name: "params_name (sample_request ''hello'' None) = tool_name"
    by (simp add: sample_request_def)
  have rejected: "fst (requested_conversion writing_fails (sample_request ''hello'' None)) =
      Rejected (Error ''ENOSPC: no space left on device, write'')"
    using hello_protected hello_restored
    by (simp add: requested_conversion_def convertToPdf_def render_and_restore_def tmp_file_callback_def Let_def
        writing_fails_def sample_env_def sample_request_def output_directory_def home_or_cwd_def
        pdf_filename_default sample_paths getIncrementalPath_def
        increment_loop.simps sample_paragraph_def with_default_def)
  from rejected_conversion_is_reported [OF name, of writing_fails] rejected
  have "fst (CallToolHandler writing_fails (sample_request ''hello'' None)) =
      Fulfilled \<lparr>content_text = ''Failed to create PDF: '' @
          error_message (Error ''ENOSPC: no space left on device, write''),
        isError = True\<rparr>"
    by blast
  then have "fst (CallToolHandler writing_fails (sample_request ''hello'' None)) =
      Fulfilled \<lparr>content_text = ''Failed to create PDF: ENOSPC: no space left on device, write'',
        isError = True\<rparr>"
    by (simp add: error_message_def)
  with name rejected show ?thesis
    by blast
qed

section \<open>Claims about the file path resolver\<close>

lemma digit_char_inj: "a < 10 \<Longrightarrow> b < 10 \<Longrightarrow> digit_char a = digit_char b \<Longrightarrow> a = b"
proof -
  assume a: "a < 10" and b: "b < 10" and eq: "digit_char a = digit_char b"
  from eq have "(of_char (digit_char a) :: nat) = of_char (digit_char b)"
    by simp
  with a b show "a = b"
    by (simp add: digit_char_def)
qed

lemma show_nat_not_Nil: "show_nat n \<noteq> []" "[] \<noteq> show_nat n"
  by (subst show_nat.simps, simp)+

lemma show_nat_inj: "show_nat n = show_nat m \<Longrightarrow> n = m"
proof (induction n arbitrary: m rule: show_nat.induct)
  case (1 n)
  show ?case
  proof (cases "n < 10")
    case True
    then have n: "show_nat n = [digit_char n]"
      by (subst show_nat.simps) simp
    show ?thesis
    proof (cases "m < 10")
      case m: True
      then have "show_nat m = [digit_char m]"
        by (subst show_nat.simps) simp
      with n "1.prems" True m show ?thesis
        by (simp add: digit_char_inj)
    next
      case m: False
      then have "show_nat m = show_nat (m div 10) @ [digit_char (m mod 10)]"
        by (subst show_nat.simps) simp
      with n "1.prems" show ?thesis
        by (simp add: show_nat_not_Nil)
    qed
  next
    case False
    then have n: "show_nat n = show_nat (n div 10) @ [digit_char (n mod 10)]"
      by (subst show_nat.simps) simp
    show ?thesis
    proof (cases "m < 10")
      case m: True
      then have "show_nat m = [digit_char m]"
        by (subst show_nat.simps) simp
      with n "1.prems" show ?thesis
        by (simp add: show_nat_not_Nil)
    next
      case m: False
      then have "show_nat m = show_nat (m div 10) @ [digit_char (m mod 10)]"
        by (subst show_nat.simps) simp
      with n "1.prems" have "show_nat (n div 10) = show_nat (m div 10)"
        and "digit_char (n mod 10) = digit_char (m mod 10)"
        by simp_all
      then have "n div 10 = m div 10" and "n mod 10 = m mod 10"
        using "1.IH" [OF False] by (simp_all add: digit_char_inj)
      then show ?thesis
        by (metis div_mult_mod_eq)
    qed
  qed
qed

lemma candidate_name_inj: "inj (candidate_name e basePath)"
  by (rule injI) (simp add: candidate_name_def show_nat_inj)

lemma getIncrementalPath_candidates:
  "getIncrementalPath e basePath =
   increment_loop (existsSync e) (candidate_path e basePath) 1 basePath"
proof -
  have "(\<lambda>counter. path_join e (path_dirname e basePath)
      (path_basename e basePath (path_extname e basePath) @ ''-'' @ show_nat counter @
       path_extname e basePath)) = candidate_path e basePath"
    by (rule ext) (simp add: candidate_path_def candidate_name_def)
  then show ?thesis
    by (simp add: getIncrementalPath_def Let_def)
qed

lemma increment_loop_free: "\<not> exists p \<Longrightarrow> increment_loop exists candidate c p = Some p"
  by (subst increment_loop.simps) simp

lemma increment_loop_step:
  "exists p \<Longrightarrow>
   increment_loop exists candidate c p = increment_loop exists candidate (c + 1) (candidate c)"
  by (subst increment_loop.simps) simp

lemma increment_loop_reaches:
  assumes "\<not> exists (candidate n)" and "\<forall>k. c \<le> k \<and> k < n \<longrightarrow> exists (candidate k)"
    and "c \<le> n" and "exists p"
  shows "increment_loop exists candidate c p = Some (candidate n)"
  using assms(2-4)
proof (induction "n - c" arbitrary: c p)
  case 0
  then have "c = n" by simp
  with 0 assms(1) show ?case
    by (simp add: increment_loop_step increment_loop_free)
next
  case (Suc d)
  then have "c < n" by simp
  with Suc.prems have here: "exists (candidate c)"
    by simp
  have "increment_loop exists candidate (c + 1) (candidate c) = Some (candidate n)"
  proof (rule Suc.hyps(1))
    show "d = n - (c + 1)"
      using Suc.hyps(2) by simp
    show "\<forall>k. c + 1 \<le> k \<and> k < n \<longrightarrow> exists (candidate k)"
      using Suc.prems(1) by simp
    show "c + 1 \<le> n"
      using \<open>c < n\<close> by simp
    show "exists (candidate c)"
      by (rule here)
  qed
  with Suc.prems(3) show ?case
    by (simp add: increment_loop_step)
qed

lemma some_candidate_is_free:
  assumes "finite {p. exists p}" and "inj candidate"
  shows "\<exists>n::nat. 1 \<le> n \<and> \<not> exists (candidate n)"
proof (rule ccontr)
  assume "\<not> (\<exists>n. 1 \<le> n \<and> \<not> exists (candidate n))"
  then have "candidate ` {1..} \<subseteq> {p. exists p}"
    by auto
  with assms(1) have "finite (candidate ` {1..})"
    by (rule rev_finite_subset)
  moreover have "inj_on candidate {1..}"
    using assms(2) by (rule inj_on_subset) simp
  ultimately have "finite {1::nat..}"
    by (rule finite_imageD)
  then show False
    by (simp add: infinite_Ici)
qed

text \<open>
  Claim C2. The file system holds finitely many files, and Node's \<open>path.join\<close> gives
  different paths for the different file names the loop builds (they have no separator and
  differ in the counter). Then \<open>getIncrementalPath\<close> returns, and the path it returns names
  no existing file. It is the requested path when that does not exist; otherwise it is the
  candidate for a counter \<open>n\<close> from 1 on, built from the base name, \<open>-n\<close> and the extension,
  and the candidates of all smaller counters exist: the suffix is the least one that is
  free.
\<close>

theorem getIncrementalPath_unused:
  assumes "finite {p. existsSync e p}"
    and "inj_on (path_join e (path_dirname e basePath)) (range (candidate_name e basePath))"
  shows "\<exists>p. getIncrementalPath e basePath = Some p \<and> \<not> existsSync e p \<and>
    (\<not> existsSync e basePath \<longrightarrow> p = basePath) \<and>
    (existsSync e basePath \<longrightarrow>
       (\<exists>n. 1 \<le> n \<and> p = candidate_path e basePath n \<and>
          candidate_name e basePath n =
            path_basename e basePath (path_extname e basePath) @ ''-'' @ show_nat n @
            path_extname e basePath \<and>
          (\<forall>k. 1 \<le> k \<and> k < n \<longrightarrow> existsSync e (candidate_path e basePath k))))"
proof (cases "existsSync e basePath")
  case False
  then show ?thesis
    by (simp add: getIncrementalPath_candidates increment_loop_free)
next
  case True
  have "inj (candidate_path e basePath)"
  proof (rule injI)
    fix a b
    assume "candidate_path e basePath a = candidate_path e basePath b"
    then have "candidate_name e basePath a = candidate_name e basePath b"
      using assms(2) by (auto simp: candidate_path_def dest: inj_onD)
    then show "a = b"
      using candidate_name_inj by (auto dest: injD)
  qed
  with assms(1) have "\<exists>n. 1 \<le> n \<and> \<not> existsSync e (candidate_path e basePath n)"
    by (rule some_candidate_is_free)
  then obtain n where n: "1 \<le> n" "\<not> existsSync e (candidate_path e basePath n)"
    and least: "\<forall>k. 1 \<le> k \<and> k < n \<longrightarrow> existsSync e (candidate_path e basePath k)"
    using exists_least_iff [of "\<lambda>n. 1 \<le> n \<and> \<not> existsSync e (candidate_path e basePath n)"]
    by blast
  have "increment_loop (existsSync e) (candidate_path e basePath) 1 basePath =
      Some (candidate_path e basePath n)"
    using n(2) least n(1) True by (rule increment_loop_reaches)
  with n least True show ?thesis
    by (auto simp: getIncrementalPath_candidates candidate_name_def)
qed

definition crowded :: env where
  "crowded = sample_env
     \<lparr>existsSync := (\<lambda>p. p \<in> set [''/home/user/output.pdf'', ''/home/user/output-1.pdf''])\<rparr>"

text \<open>
  Witness for C2: in a file system that holds \<open>/home/user/output.pdf\<close> and
  \<open>/home/user/output-1.pdf\<close>, the request for \<open>/home/user/output.pdf\<close> resolves to
  \<open>/home/user/output-2.pdf\<close>, which does not exist.
\<close>

theorem getIncrementalPath_unused_witness:
  "getIncrementalPath crowded ''/home/user/output.pdf'' = Some ''/home/user/output-2.pdf'' \<and>
   \<not> existsSync crowded ''/home/user/output-2.pdf'' \<and>
   existsSync crowded ''/home/user/output.pdf'' \<and>
   candidate_path crowded ''/home/user/output.pdf'' 1 = ''/home/user/output-1.pdf'' \<and>
   candidate_path crowded ''/home/user/output.pdf'' 2 = ''/home/user/output-2.pdf''"
proof -
  let ?base = "''/home/user/output.pdf''"
  have finite: "finite {p. existsSync crowded p}"
    by (simp add: crowded_def)
  have "inj_on (sample_join dir) A" for dir A
    by (rule inj_onI) (simp add: sample_join_def)
  then have inj: "inj_on (path_join crowded (path_dirname crowded ?base))
      (range (candidate_name crowded ?base))"
    by (simp add: crowded_def sample_env_def)
  have found: "getIncrementalPath crowded ?base = Some ''/home/user/output-2.pdf''"
    by code_simp
  have first: "candidate_path crowded ?base 1 = ''/home/user/output-1.pdf''"
    by code_simp
  have second: "candidate_path crowded ?base 2 = ''/home/user/output-2.pdf''"
    by code_simp
  have taken: "existsSync crowded ?base"
    by (simp add: crowded_def)
  from getIncrementalPath_unused [OF finite inj] found
  have "\<not> existsSync crowded ''/home/user/output-2.pdf''"
    by auto
  with found first second taken show ?thesis
    by blast
qed

section \<open>Claims about the document composer\<close>

lemma prefix_watermark_open:
  \<open>prefix watermark_open s \<longleftrightarrow> prefix ''<div class="watermark">'' s\<close>
  by (simp add: watermark_open_def)

lemma occurrences_skip:
  "CHR ''<'' \<notin> set a \<Longrightarrow> occurrences watermark_open (a @ b) = occurrences watermark_open b"
  by (induction a) (auto simp: prefix_watermark_open)

lemma occurrences_join_lines:
  assumes "\<And>l rest. l \<in> set ls \<Longrightarrow>
    occurrences watermark_open (l @ rest) = occurrences watermark_open rest"
  shows "occurrences watermark_open (join_lines ls @ rest) = occurrences watermark_open rest"
  using assms
proof (induction ls arbitrary: rest rule: join_lines.induct)
  case 1
  then show ?case by simp
next
  case (2 l)
  then show ?case by simp
next
  case (3 l l' ls)
  have "occurrences watermark_open (join_lines (l # l' # ls) @ rest) =
      occurrences watermark_open (l @ (CHR 0x0A # join_lines (l' # ls) @ rest))"
    by simp
  also have "\<dots> = occurrences watermark_open (CHR 0x0A # join_lines (l' # ls) @ rest)"
    by (rule "3.prems") simp
  also have "\<dots> = occurrences watermark_open (join_lines (l' # ls) @ rest)"
    by (simp add: prefix_watermark_open)
  also have "\<dots> = occurrences watermark_open rest"
    by (rule "3.IH") (simp add: "3.prems")
  finally show ?case .
qed

lemma occurrences_mermaid_script_text:
  "occurrences watermark_open (mermaid_script_text @ rest) = occurrences watermark_open rest"
  unfolding mermaid_script_text_def
  by (rule occurrences_join_lines) (auto simp: prefix_watermark_open)

lemma occurrences_mermaidScript:
  "occurrences watermark_open (mermaidScript h @ rest) = occurrences watermark_open rest"
  by (simp add: mermaidScript_def occurrences_mermaid_script_text)

lemma page_box_plain:
  "CHR ''<'' \<notin> set (page_width pf)" "CHR ''<'' \<notin> set (page_height pf)"
  by (simp_all add: page_width_def page_height_def)

lemma occurrences_html_before_content:
  assumes "CHR ''<'' \<notin> set pf" and "CHR ''<'' \<notin> set po"
  shows "occurrences watermark_open (html_before_content pf po (mermaidScript h) @ rest) =
    occurrences watermark_open rest"
proof -
  have "occurrences watermark_open (html_before_content pf po (mermaidScript h) @ rest) =
      occurrences watermark_open ((CHR 0x0A # ''      '') @ rest)"
    unfolding html_before_content_def append_assoc
    by (rule occurrences_join_lines)
      (auto simp: prefix_watermark_open occurrences_skip occurrences_mermaidScript
         page_box_plain assms)
  then show ?thesis
    by (simp add: prefix_watermark_open)
qed

text \<open>
  No copy of the pattern lies across the end of a text when what follows starts with a
  character that the pattern has only in its first place, or not at all.
\<close>

lemma prefix_across:
  assumes "prefix pat (a @ b)" and "a \<noteq> []" and "b = [] \<or> hd b \<notin> set (tl pat)"
  shows "prefix pat a"
proof (rule ccontr)
  assume not: "\<not> prefix pat a"
  from assms(1) obtain us where us: "pat = a @ us" "prefix us b"
    using not by (auto simp: prefix_append)
  from not us(1) have "us \<noteq> []"
    by auto
  with us(2) have b: "b \<noteq> []" "hd b = hd us"
    by (auto simp: prefix_def)
  from us(1) assms(2) \<open>us \<noteq> []\<close> have "hd us \<in> set (tl pat)"
    by (cases a) auto
  with b assms(3) show False
    by simp
qed

lemma occurrences_append:
  assumes "b = [] \<or> hd b \<notin> set (tl pat)"
  shows "occurrences pat (a @ b) = occurrences pat a + occurrences pat b"
proof (induction a)
  case Nil
  then show ?case by simp
next
  case (Cons c a)
  have "prefix pat (c # a) \<Longrightarrow> prefix pat ((c # a) @ b)"
    by (rule prefix_prefix)
  moreover have "prefix pat ((c # a) @ b) \<Longrightarrow> prefix pat (c # a)"
    using assms by (rule prefix_across [rotated 2]) simp_all
  ultimately have "prefix pat (c # a @ b) \<longleftrightarrow> prefix pat (c # a)"
    by auto
  with Cons show ?case
    by simp
qed

lemma occurrences_html_after_content:
  assumes "CHR ''<'' \<notin> set watermark"
  shows "occurrences watermark_open (html_after_content watermark) =
    (if watermark \<noteq> [] then 1 else 0)"
proof (cases "watermark = []")
  case True
  then show ?thesis
    by (simp add: html_after_content_def watermark_layer_def prefix_watermark_open)
next
  case False
  have "occurrences watermark_open (watermark @ rest) = occurrences watermark_open rest" for rest
    using assms by (rule occurrences_skip)
  with False show ?thesis
    by (simp add: html_after_content_def watermark_layer_def watermark_open_def)
qed

lemma occurrences_html_document:
  assumes "CHR ''<'' \<notin> set pf" and "CHR ''<'' \<notin> set po" and "CHR ''<'' \<notin> set watermark"
  shows "occurrences watermark_open (html_document pf po h htmlContent watermark) =
    occurrences watermark_open htmlContent + (if watermark \<noteq> [] then 1 else 0)"
proof -
  have "hd (html_after_content watermark) \<notin> set (tl watermark_open)"
    by (simp add: html_after_content_def watermark_open_def)
  then have "occurrences watermark_open (htmlContent @ html_after_content watermark) =
      occurrences watermark_open htmlContent +
      occurrences watermark_open (html_after_content watermark)"
    by (intro occurrences_append) simp
  then show ?thesis
    using assms
    by (simp add: html_document_def occurrences_html_before_content
        occurrences_html_after_content)
qed

subsection \<open>Occurrences of a word in the template\<close>

lemma occurrences_join_lines_sum:
  assumes "CHR 0x0A \<notin> set pat" and "pat \<noteq> []"
  shows "occurrences pat (join_lines ls) = sum_list (map (occurrences pat) ls)"
proof (induction ls rule: join_lines.induct)
  case 1
  then show ?case by simp
next
  case (2 l)
  then show ?case by simp
next
  case (3 l l' ls)
  from assms have tl: "CHR 0x0A \<notin> set (tl pat)"
    by (cases pat) auto
  from assms have start: "\<not> prefix pat (CHR 0x0A # rest)" for rest
    by (cases pat) auto
  have "occurrences pat (join_lines (l # l' # ls)) =
      occurrences pat (l @ CHR 0x0A # join_lines (l' # ls))"
    by simp
  also have "\<dots> = occurrences pat l + occurrences pat (CHR 0x0A # join_lines (l' # ls))"
    using tl by (intro occurrences_append) simp
  also have "\<dots> = occurrences pat l + occurrences pat (join_lines (l' # ls))"
    using start by simp
  finally show ?case
    by (simp add: "3.IH")
qed

lemma occurrences_join_lines_rest:
  assumes "CHR 0x0A \<notin> set pat" and "pat \<noteq> []"
  shows "occurrences pat (join_lines ls @ CHR 0x0A # rest) =
    sum_list (map (occurrences pat) ls) + occurrences pat rest"
proof -
  from assms have tl: "CHR 0x0A \<notin> set (tl pat)"
    by (cases pat) auto
  from assms have start: "\<not> prefix pat (CHR 0x0A # rest)"
    by (cases pat) auto
  have "occurrences pat (join_lines ls @ CHR 0x0A # rest) =
      occurrences pat (join_lines ls) + occurrences pat (CHR 0x0A # rest)"
    using tl by (intro occurrences_append) simp
  with start show ?thesis
    by (simp add: occurrences_join_lines_sum [OF assms])
qed

lemma word_after_space:
  "occurrences ''watermark'' (a @ CHR '' '' # b) =
   occurrences ''watermark'' a + occurrences ''watermark'' b"
  using occurrences_append [of "CHR '' '' # b" "''watermark''" a] by simp

lemma word_before_semicolon:
  "occurrences ''watermark'' (a @ '';'') = occurrences ''watermark'' a"
  using occurrences_append [of "'';''" "''watermark''" a] by simp

lemma word_before_tag:
  "occurrences ''watermark'' (a @ CHR ''<'' # b) =
   occurrences ''watermark'' a + occurrences ''watermark'' b"
  using occurrences_append [of "CHR ''<'' # b" "''watermark''" a] by simp

lemma word_page_box:
  "occurrences ''watermark'' (page_width pf @ rest) = occurrences ''watermark'' rest"
  "occurrences ''watermark'' (page_height pf @ rest) = occurrences ''watermark'' rest"
  "occurrences ''watermark'' (page_width pf) = 0"
  "occurrences ''watermark'' (page_height pf) = 0"
  by (simp_all add: page_width_def page_height_def)

lemma word_mermaidScript: "occurrences ''watermark'' (mermaidScript h) = 0"
  by (simp add: mermaidScript_def mermaid_script_text_def occurrences_join_lines_sum
      del: join_lines.simps)

lemma word_html_before_content:
  "occurrences ''watermark'' (html_before_content pf po (mermaidScript h) @ rest) =
   1 + occurrences ''watermark'' pf + occurrences ''watermark'' po + occurrences ''watermark'' rest"
  by (simp add: html_before_content_def occurrences_join_lines_rest word_after_space
      word_before_semicolon word_page_box word_mermaidScript del: join_lines.simps)

lemma word_html_after_content:
  "occurrences ''watermark'' (html_after_content watermark) =
   (if watermark \<noteq> [] then 1 + occurrences ''watermark'' watermark else 0)"
  by (simp add: html_after_content_def watermark_layer_def watermark_open_def word_before_tag)

lemma smuggled_protected:
  \<open>processMermaidDiagrams ''```mermaid\<newline><div class="watermark">DRAFT</div>\<newline>```'' =
   (''MERMAID_DIAGRAM_PLACEHOLDER_PGRpdiBjbGFzcz0id2F0ZXJtYXJrIj5EUkFGVDwvZGl2Pg=='', True)\<close>
  by code_simp

lemma smuggled_restored:
  \<open>restoreMermaidDiagrams decode_base64_utf8
     (''<p>'' @ ''MERMAID_DIAGRAM_PLACEHOLDER_PGRpdiBjbGFzcz0id2F0ZXJtYXJrIj5EUkFGVDwvZGl2Pg=='' @
      ''</p>\<newline>'') =
   Inr ''<p><div class="mermaid"><div class="watermark">DRAFT</div></div></p>\<newline>''\<close>
  by code_simp

text \<open>
  Claim C5, as stated, fails. The diagram source is put into the HTML as it is, so a
  diagram block can carry markup. In the sample environment, a call without a watermark
  whose markdown is one diagram block with the body
  \<open><div class="watermark">DRAFT</div>\<close> writes a composed document that contains a
  watermark element: the text \<open><div class="watermark">\<close> occurs in it once.
\<close>

theorem composed_watermark_counterexample:
  \<open>arg_watermark (params_arguments
      (sample_request ''```mermaid\<newline><div class="watermark">DRAFT</div>\<newline>```'' None)) = None \<and>
   WriteFile ''/tmp/tmp-1.html''
      (html_document ''letter'' ''portrait'' True
         ''<p><div class="mermaid"><div class="watermark">DRAFT</div></div></p>\<newline>'' [])
     \<in> set (snd (CallToolHandler sample_env
           (sample_request ''```mermaid\<newline><div class="watermark">DRAFT</div>\<newline>```'' None))) \<and>
   occurrences ''<div class="watermark">''
     (html_document ''letter'' ''portrait'' True
        ''<p><div class="mermaid"><div class="watermark">DRAFT</div></div></p>\<newline>'' []) = 1\<close>
proof -
  have \<open>occurrences watermark_open
      ''<p><div class="mermaid"><div class="watermark">DRAFT</div></div></p>\<newline>'' = 1\<close>
    by (simp add: prefix_watermark_open)
  then have count: \<open>occurrences watermark_open
     (html_document ''letter'' ''portrait'' True
        ''<p><div class="mermaid"><div class="watermark">DRAFT</div></div></p>\<newline>'' []) = 1\<close>
    by (simp add: occurrences_html_document)
  have none: \<open>arg_watermark (params_arguments
      (sample_request ''```mermaid\<newline><div class="watermark">DRAFT</div>\<newline>```'' None)) = None\<close>
    by (simp add: sample_request_def)
  have written: \<open>WriteFile ''/tmp/tmp-1.html''
      (html_document ''letter'' ''portrait'' True
         ''<p><div class="mermaid"><div class="watermark">DRAFT</div></div></p>\<newline>'' [])
     \<in> set (snd (CallToolHandler sample_env
           (sample_request ''```mermaid\<newline><div class="watermark">DRAFT</div>\<newline>```'' None)))\<close>
    by (simp add: sample_call [OF smuggled_protected smuggled_restored] with_default_def)
  from none written count [unfolded watermark_open_def] show ?thesis
    by blast
qed

text \<open>
  Claim C5, amended. For every request the composed document is the page head, then the
  rendered body, then the line that closes the content layer, then, exactly when the
  watermark is not empty, the text \<open><div class="watermark">\<close>, the watermark, \<open></div>\<close>,
  and then the lines that close the page. The composer writes the word \<open>watermark\<close>
  once in the style sheet of the page head and once more in that layer, and nowhere else:
  all other occurrences of the word in the document lie in the texts of the request (paper
  format, paper orientation, rendered body, watermark).
\<close>

theorem composed_watermark_layer:
  \<open>html_document pf po h htmlContent watermark =
     html_before_content pf po (mermaidScript h) @ htmlContent @
     ''\<newline>    </div>\<newline>    '' @
     (if watermark \<noteq> [] then ''<div class="watermark">'' @ watermark @ ''</div>'' else []) @
     ''\<newline>  </div>\<newline></body>\<newline></html>'' \<and>
   occurrences ''watermark'' (html_document pf po h htmlContent watermark) =
     1 + occurrences ''watermark'' pf + occurrences ''watermark'' po +
     occurrences ''watermark'' htmlContent +
     (if watermark \<noteq> [] then 1 + occurrences ''watermark'' watermark else 0)\<close>
proof
  show \<open>html_document pf po h htmlContent watermark =
     html_before_content pf po (mermaidScript h) @ htmlContent @
     ''\<newline>    </div>\<newline>    '' @
     (if watermark \<noteq> [] then ''<div class="watermark">'' @ watermark @ ''</div>'' else []) @
     ''\<newline>  </div>\<newline></body>\<newline></html>''\<close>
    by (simp add: html_document_def html_after_content_def watermark_layer_def watermark_open_def)
next
  have "hd (html_after_content watermark) \<notin> set (tl ''watermark'')"
    by (simp add: html_after_content_def)
  then have "occurrences ''watermark'' (htmlContent @ html_after_content watermark) =
      occurrences ''watermark'' htmlContent + occurrences ''watermark'' (html_after_content watermark)"
    by (intro occurrences_append) simp
  then show \<open>occurrences ''watermark'' (html_document pf po h htmlContent watermark) =
     1 + occurrences ''watermark'' pf + occurrences ''watermark'' po +
     occurrences ''watermark'' htmlContent +
     (if watermark \<noteq> [] then 1 + occurrences ''watermark'' watermark else 0)\<close>
    by (simp add: html_document_def word_html_before_content word_html_after_content)
qed

text \<open>
  Witness for C5: the body \<open><p>hello</p>\<close> on letter paper. With the watermark \<open>DRAFT\<close> the
  document ends with the layer \<open><div class="watermark">DRAFT</div>\<close> and the closing
  lines, and has the word \<open>watermark\<close> twice; with the empty watermark the line of the
  layer is blank and the word occurs once, in the style sheet.
\<close>

theorem composed_watermark_layer_witness:
  \<open>html_document ''letter'' ''portrait'' False ''<p>hello</p>\<newline>'' ''DRAFT'' =
     html_before_content ''letter'' ''portrait'' [] @
     ''<p>hello</p>\<newline>\<newline>    </div>\<newline>    <div class="watermark">DRAFT</div>\<newline>  </div>\<newline></body>\<newline></html>'' \<and>
   occurrences ''watermark''
     (html_document ''letter'' ''portrait'' False ''<p>hello</p>\<newline>'' ''DRAFT'') = 2 \<and>
   html_document ''letter'' ''portrait'' False ''<p>hello</p>\<newline>'' [] =
     html_before_content ''letter'' ''portrait'' [] @
     ''<p>hello</p>\<newline>\<newline>    </div>\<newline>    \<newline>  </div>\<newline></body>\<newline></html>'' \<and>
   occurrences ''watermark''
     (html_document ''letter'' ''portrait'' False ''<p>hello</p>\<newline>'' []) = 1\<close>
proof -
  have none: "occurrences ''watermark'' ''letter'' = 0" "occurrences ''watermark'' ''portrait'' = 0"
    "occurrences ''watermark'' ''<p>hello</p>\<newline>'' = 0" "occurrences ''watermark'' ''DRAFT'' = 0"
    by simp_all
  note draft = composed_watermark_layer
    [of "''letter''" "''portrait''" False "''<p>hello</p>\<newline>''" "''DRAFT''"]
  note empty = composed_watermark_layer
    [of "''letter''" "''portrait''" False "''<p>hello</p>\<newline>''" "[]"]
  from draft [THEN conjunct1]
  have d1: \<open>html_document ''letter'' ''portrait'' False ''<p>hello</p>\<newline>'' ''DRAFT'' =
      html_before_content ''letter'' ''portrait'' [] @
      ''<p>hello</p>\<newline>\<newline>    </div>\<newline>    <div class="watermark">DRAFT</div>\<newline>  </div>\<newline></body>\<newline></html>''\<close>
    by (simp add: mermaidScript_def)
  from draft [THEN conjunct2]
  have d2: "occurrences ''watermark''
      (html_document ''letter'' ''portrait'' False ''<p>hello</p>\<newline>'' ''DRAFT'') = 2"
    unfolding none by simp
  from empty [THEN conjunct1]
  have e1: \<open>html_document ''letter'' ''portrait'' False ''<p>hello</p>\<newline>'' [] =
      html_before_content ''letter'' ''portrait'' [] @
      ''<p>hello</p>\<newline>\<newline>    </div>\<newline>    \<newline>  </div>\<newline></body>\<newline></html>''\<close>
    by (simp add: mermaidScript_def)
  from empty [THEN conjunct2]
  have e2: "occurrences ''watermark''
      (html_document ''letter'' ''portrait'' False ''<p>hello</p>\<newline>'' []) = 1"
    unfolding none by simp
  from d1 d2 e1 e2 show ?thesis
    by (intro conjI)
qed

end
